theory Spec2Isabelle
  imports Main
begin

section \<open>Python values used by the two tools\<close>

text \<open>
  A Python \<open>str\<close> is a sequence of Unicode code points. Code points are natural numbers
  here, so that text decoded from a subprocess is not limited to one byte per character.
  A literal of the source is written \<open>lit ''...''\<close>.
\<close>

type_synonym str = "nat list"

definition lit :: "string \<Rightarrow> str" where
  "lit s = map of_char s"

text \<open>
  \<open>str.isspace\<close> on one code point: the white space that \<open>str.strip()\<close> removes when
  it is called without an argument (U+0009..U+000D, U+001C..U+0020, U+0085, U+00A0,
  U+1680, U+2000..U+200A, U+2028, U+2029, U+202F, U+205F, U+3000).
\<close>

definition isspace :: "nat \<Rightarrow> bool" where
  "isspace c =
     ((9 \<le> c \<and> c \<le> 13) \<or> (28 \<le> c \<and> c \<le> 32) \<or> c = 133 \<or> c = 160 \<or> c = 5760 \<or>
      (8192 \<le> c \<and> c \<le> 8202) \<or> c = 8232 \<or> c = 8233 \<or> c = 8239 \<or> c = 8287 \<or>
      c = 12288)"

text \<open>\<open>s.strip()\<close>: leading and trailing white space removed.\<close>

definition strip :: "str \<Rightarrow> str" where
  "strip s = rev (dropWhile isspace (rev (dropWhile isspace s)))"

text \<open>
  The exceptions a call of \<open>subprocess.run\<close> can end with, by the classes the handlers of
  the source tell apart: \<open>subprocess.TimeoutExpired\<close>; any other instance of \<open>Exception\<close>
  (\<open>FileNotFoundError\<close>, \<open>PermissionError\<close>, \<open>ValueError\<close>, ...), carrying \<open>str(e)\<close>; and
  \<open>KeyboardInterrupt\<close>, which derives from \<open>BaseException\<close> and not from \<open>Exception\<close> and
  which the interactive loop of the source handles by name.
\<close>

datatype py_exception =
    TimeoutExpired
  | OtherException str
  | KeyboardInterrupt

text \<open>\<open>isinstance(e, Exception)\<close>.\<close>

fun isinstance_Exception :: "py_exception \<Rightarrow> bool" where
  "isinstance_Exception TimeoutExpired = True"
| "isinstance_Exception (OtherException msg) = True"
| "isinstance_Exception KeyboardInterrupt = False"

text \<open>\<open>subprocess.CompletedProcess\<close> with captured text streams.\<close>

datatype completed_process =
  CompletedProcess (returncode: int) (stdout: str) (stderr: str)

text \<open>The arguments of one call of \<open>subprocess.run\<close>, as the source passes them.\<close>

record run_call =
  args :: "str list"
  capture_output :: bool
  text_mode :: bool
  timeout :: nat
  shell :: bool

section \<open>The process boundary\<close>

text \<open>
  \<open>subprocess.run\<close> belongs to the Python library, not to the repository, so the
  operating system behind it is a parameter: from the arguments of the call and the
  state of the machine it gives either the exception raised (\<open>Inl\<close>) or the completed
  process (\<open>Inr\<close>), and the next state of the machine. The state of a run of the tools
  also records every call of \<open>subprocess.run\<close> made so far, in order.
\<close>

type_synonym 'w operating_system = "run_call \<Rightarrow> 'w \<Rightarrow> (py_exception + completed_process) \<times> 'w"

record 'w proc_state =
  spawned :: "run_call list"
  os_state :: 'w

definition subprocess_run ::
  "'w operating_system \<Rightarrow> run_call \<Rightarrow> 'w proc_state
     \<Rightarrow> (py_exception + completed_process) \<times> 'w proc_state" where
  "subprocess_run env c s =
     (case env c (os_state s) of
        (r, w') \<Rightarrow> (r, \<lparr>spawned = spawned s @ [c], os_state = w'\<rparr>))"

text \<open>
  The three calls of the source have the same shape:
  \<open>subprocess.run(["powershell", "-Command", script], capture_output=True, text=True,
  timeout=secs, shell=False)\<close>.
\<close>

abbreviation powershell :: "str \<Rightarrow> nat \<Rightarrow> run_call" where
  "powershell script secs \<equiv>
     \<lparr>args = [lit ''powershell'', lit ''-Command'', script],
      capture_output = True, text_mode = True, timeout = secs, shell = False\<rparr>"

section \<open>execute_powershell_command\<close>

text \<open>
  The result is \<open>Inr\<close> of the returned string, or \<open>Inl\<close> of the exception that leaves the
  function. The handlers are tried in the order of the source:
  \<open>except subprocess.TimeoutExpired\<close>, then \<open>except Exception as e\<close>.
\<close>

definition execute_powershell_command ::
  "'w operating_system \<Rightarrow> str \<Rightarrow> 'w proc_state \<Rightarrow> (py_exception + str) \<times> 'w proc_state" where
  "execute_powershell_command env command s =
     (case subprocess_run env (powershell command 30) s of
        (Inr result, s') \<Rightarrow>
          if returncode result = 0 then
            (let output = strip (stdout result) in
             (Inr (if output \<noteq> [] then output
                   else lit ''Command executed successfully with no output.''), s'))
          else
            (let error = strip (stderr result) in
             (Inr (lit ''Error executing command: '' @ error), s'))
      | (Inl TimeoutExpired, s') \<Rightarrow>
          (Inr (lit ''Error: Command execution timed out (30 seconds limit).''), s')
      | (Inl (OtherException msg), s') \<Rightarrow> (Inr (lit ''Error: '' @ msg), s')
      | (Inl KeyboardInterrupt, s') \<Rightarrow> (Inl KeyboardInterrupt, s'))"

section \<open>search_powershell_command\<close>

definition help_command :: "str \<Rightarrow> str" where
  "help_command query = lit ''Get-Help '' @ query @ lit '' -ErrorAction SilentlyContinue''"

definition search_command :: "str \<Rightarrow> str" where
  "search_command query =
     lit ''Get-Command *'' @ query @
     lit ''* -ErrorAction SilentlyContinue | Select-Object -First 5 Name, Synopsis''"

text \<open>The two handlers of the function, which guard both calls.\<close>

fun search_except :: "py_exception \<Rightarrow> py_exception + str" where
  "search_except TimeoutExpired = Inr (lit ''Error: Search timed out.'')"
| "search_except (OtherException msg) = Inr (lit ''Error searching for command: '' @ msg)"
| "search_except KeyboardInterrupt = Inl KeyboardInterrupt"

definition search_powershell_command ::
  "'w operating_system \<Rightarrow> str \<Rightarrow> 'w proc_state \<Rightarrow> (py_exception + str) \<times> 'w proc_state" where
  "search_powershell_command env query s =
     (case subprocess_run env (powershell (help_command query) 15) s of
        (Inr result, s1) \<Rightarrow>
          if returncode result = 0 \<and> strip (stdout result) \<noteq> [] then
            (Inr (strip (stdout result)), s1)
          else
            (case subprocess_run env (powershell (search_command query) 15) s1 of
               (Inr result2, s2) \<Rightarrow>
                 if returncode result2 = 0 \<and> strip (stdout result2) \<noteq> [] then
                   (Inr (lit ''Related commands found:'' @ [10] @ strip (stdout result2) @
                         [10, 10] @ lit ''Use Get-Help <command-name> for more details.''), s2)
                 else
                   (Inr (lit ''No help found for '' @ [39] @ query @ [39] @
                         lit ''. Try using more specific command names like Get-Process, Get-Service, etc.''),
                    s2)
             | (Inl e, s2) \<Rightarrow> (search_except e, s2))
      | (Inl e, s1) \<Rightarrow> (search_except e, s1))"

section \<open>A scripted operating system\<close>

text \<open>
  A concrete operating system for the worked examples: its state is the list of the
  outcomes still to come, and each call of \<open>subprocess.run\<close> consumes the next one.
  When none is left the interpreter cannot be launched.
\<close>

fun scripted_os :: "(py_exception + completed_process) list operating_system" where
  "scripted_os c [] =
     (Inl (OtherException (lit ''[WinError 2] The system cannot find the file specified'')), [])"
| "scripted_os c (r # rs) = (r, rs)"

section \<open>What one call of each tool does\<close>

lemma execute_fst:
  "fst (execute_powershell_command env command s) =
     (case fst (env (powershell command 30) (os_state s)) of
        Inr result \<Rightarrow>
          if returncode result = 0 then
            Inr (if strip (stdout result) \<noteq> [] then strip (stdout result)
                 else lit ''Command executed successfully with no output.'')
          else Inr (lit ''Error executing command: '' @ strip (stderr result))
      | Inl TimeoutExpired \<Rightarrow>
          Inr (lit ''Error: Command execution timed out (30 seconds limit).'')
      | Inl (OtherException msg) \<Rightarrow> Inr (lit ''Error: '' @ msg)
      | Inl KeyboardInterrupt \<Rightarrow> Inl KeyboardInterrupt)"
  by (simp add: execute_powershell_command_def subprocess_run_def Let_def
      split: prod.splits sum.splits py_exception.splits)

lemma execute_spawned:
  "spawned (snd (execute_powershell_command env command s)) =
     spawned s @ [powershell command 30]"
  by (simp add: execute_powershell_command_def subprocess_run_def Let_def
      split: prod.splits sum.splits py_exception.splits)

lemma search_first_returns:
  assumes "env (powershell (help_command query) 15) (os_state s) = (Inr cp, w1)"
      and "returncode cp = 0" and "strip (stdout cp) \<noteq> []"
  shows "search_powershell_command env query s =
           (Inr (strip (stdout cp)),
            \<lparr>spawned = spawned s @ [powershell (help_command query) 15], os_state = w1\<rparr>)"
  using assms by (simp add: search_powershell_command_def subprocess_run_def)

lemma search_first_raises:
  assumes "env (powershell (help_command query) 15) (os_state s) = (Inl e, w1)"
  shows "search_powershell_command env query s =
           (search_except e,
            \<lparr>spawned = spawned s @ [powershell (help_command query) 15], os_state = w1\<rparr>)"
  using assms by (simp add: search_powershell_command_def subprocess_run_def)

lemma search_second:
  assumes "env (powershell (help_command query) 15) (os_state s) = (Inr cp, w1)"
      and "returncode cp \<noteq> 0 \<or> strip (stdout cp) = []"
      and "env (powershell (search_command query) 15) w1 = (r2, w2)"
  shows "search_powershell_command env query s =
           (case r2 of
              Inr result2 \<Rightarrow>
                if returncode result2 = 0 \<and> strip (stdout result2) \<noteq> [] then
                  Inr (lit ''Related commands found:'' @ [10] @ strip (stdout result2) @
                       [10, 10] @ lit ''Use Get-Help <command-name> for more details.'')
                else
                  Inr (lit ''No help found for '' @ [39] @ query @ [39] @
                       lit ''. Try using more specific command names like Get-Process, Get-Service, etc.'')
            | Inl e \<Rightarrow> search_except e,
            \<lparr>spawned = spawned s @ [powershell (help_command query) 15,
                                    powershell (search_command query) 15],
             os_state = w2\<rparr>)"
  using assms
  by (auto simp add: search_powershell_command_def subprocess_run_def split: sum.splits)


lemma search_fst:
  assumes "env (powershell (help_command query) 15) (os_state s) = (r1, w1)"
      and "env (powershell (search_command query) 15) w1 = (r2, w2)"
  shows "fst (search_powershell_command env query s) =
           (case r1 of
              Inl e \<Rightarrow> search_except e
            | Inr result \<Rightarrow>
                if returncode result = 0 \<and> strip (stdout result) \<noteq> [] then
                  Inr (strip (stdout result))
                else
                  (case r2 of
                     Inl e \<Rightarrow> search_except e
                   | Inr result2 \<Rightarrow>
                       if returncode result2 = 0 \<and> strip (stdout result2) \<noteq> [] then
                         Inr (lit ''Related commands found:'' @ [10] @ strip (stdout result2) @
                              [10, 10] @ lit ''Use Get-Help <command-name> for more details.'')
                       else
                         Inr (lit ''No help found for '' @ [39] @ query @ [39] @
                              lit ''. Try using more specific command names like Get-Process, Get-Service, etc.'')))"
  using assms
  by (simp add: search_powershell_command_def subprocess_run_def split: sum.splits)

lemma search_except_text:
  "isinstance_Exception e \<Longrightarrow> \<exists>text. search_except e = Inr text"
  by (cases e) simp_all

section \<open>The claims about \<open>execute_powershell_command\<close>\<close>

text \<open>
  Claim C1. Whenever the subprocess of a command exits with code zero, the tool returns
  the stripped standard output if that is not empty, and otherwise the literal
  "Command executed successfully with no output.".
\<close>

theorem execute_exit_zero:
  assumes "env (powershell command 30) (os_state s) = (Inr (CompletedProcess 0 out err), w')"
  shows "fst (execute_powershell_command env command s) =
           Inr (if strip out \<noteq> [] then strip out
                else lit ''Command executed successfully with no output.'')"
  using assms by (simp add: execute_fst)

text \<open>
  Two runs on the scripted system: \<open>echo hello\<close> prints "hello" and a line end, and
  \<open>Clear-Host\<close> prints a single newline.
\<close>

theorem execute_exit_zero_witness:
  "scripted_os (powershell (lit ''echo hello'') 30)
       [Inr (CompletedProcess 0 (lit ''hello'' @ [13, 10]) [])]
     = (Inr (CompletedProcess 0 (lit ''hello'' @ [13, 10]) []), [])
   \<and> fst (execute_powershell_command scripted_os (lit ''echo hello'')
        \<lparr>spawned = [], os_state = [Inr (CompletedProcess 0 (lit ''hello'' @ [13, 10]) [])]\<rparr>)
     = Inr (lit ''hello'')
   \<and> scripted_os (powershell (lit ''Clear-Host'') 30) [Inr (CompletedProcess 0 [10] [])]
     = (Inr (CompletedProcess 0 [10] []), [])
   \<and> fst (execute_powershell_command scripted_os (lit ''Clear-Host'')
        \<lparr>spawned = [], os_state = [Inr (CompletedProcess 0 [10] [])]\<rparr>)
     = Inr (lit ''Command executed successfully with no output.'')"
  using execute_exit_zero [of scripted_os "lit ''echo hello''"
      "\<lparr>spawned = [], os_state = [Inr (CompletedProcess 0 (lit ''hello'' @ [13, 10]) [])]\<rparr>"
      "lit ''hello'' @ [13, 10]" "[]" "[]"]
    execute_exit_zero [of scripted_os "lit ''Clear-Host''"
      "\<lparr>spawned = [], os_state = [Inr (CompletedProcess 0 [10] [])]\<rparr>" "[10]" "[]" "[]"]
  by (simp add: strip_def lit_def isspace_def)

text \<open>
  Claim C2. Whenever the subprocess exits with a code other than zero, the tool returns
  "Error executing command: " followed by the stripped standard error.
\<close>

theorem execute_exit_nonzero:
  assumes "env (powershell command 30) (os_state s) = (Inr (CompletedProcess rc out err), w')"
      and "rc \<noteq> 0"
  shows "fst (execute_powershell_command env command s) =
           Inr (lit ''Error executing command: '' @ strip err)"
  using assms by (simp add: execute_fst)

text \<open>A run whose subprocess exits with code 1 and writes to standard error.\<close>

theorem execute_exit_nonzero_witness:
  "scripted_os (powershell (lit ''Get-Item nope'') 30)
       [Inr (CompletedProcess 1 [] (lit ''Cannot find path'' @ [13, 10]))]
     = (Inr (CompletedProcess 1 [] (lit ''Cannot find path'' @ [13, 10])), [])
   \<and> (1::int) \<noteq> 0
   \<and> fst (execute_powershell_command scripted_os (lit ''Get-Item nope'')
        \<lparr>spawned = [],
         os_state = [Inr (CompletedProcess 1 [] (lit ''Cannot find path'' @ [13, 10]))]\<rparr>)
     = Inr (lit ''Error executing command: Cannot find path'')"
  using execute_exit_nonzero [of scripted_os "lit ''Get-Item nope''"
      "\<lparr>spawned = [],
        os_state = [Inr (CompletedProcess 1 [] (lit ''Cannot find path'' @ [13, 10]))]\<rparr>"
      1 "[]" "lit ''Cannot find path'' @ [13, 10]" "[]"]
  by (simp add: strip_def lit_def isspace_def)



text \<open>
  Claim C4 says that neither tool ever lets a raised exception reach its caller. The
  handlers of both tools are \<open>except subprocess.TimeoutExpired\<close> and
  \<open>except Exception\<close>, so a \<open>KeyboardInterrupt\<close> raised while \<open>subprocess.run\<close> waits
  for the child leaves both of them: from the one call of
  \<open>execute_powershell_command\<close>, and from the first and from the second call of
  \<open>search_powershell_command\<close>.
\<close>

theorem tools_propagate_interrupt:
  "fst (execute_powershell_command scripted_os (lit ''Start-Sleep 20'')
          \<lparr>spawned = [], os_state = [Inl KeyboardInterrupt]\<rparr>) = Inl KeyboardInterrupt
   \<and> fst (search_powershell_command scripted_os (lit ''Get-Process'')
          \<lparr>spawned = [], os_state = [Inl KeyboardInterrupt]\<rparr>) = Inl KeyboardInterrupt
   \<and> fst (search_powershell_command scripted_os (lit ''proc'')
          \<lparr>spawned = [], os_state = [Inr (CompletedProcess 1 [] []), Inl KeyboardInterrupt]\<rparr>)
       = Inl KeyboardInterrupt"
  by (simp add: execute_fst search_powershell_command_def subprocess_run_def strip_def)

text \<open>
  Claim C4, amended. Let \<open>r\<close> be the outcome of the call made by
  \<open>execute_powershell_command\<close>, \<open>r1\<close> the outcome of the first call of
  \<open>search_powershell_command\<close> and \<open>r2\<close> the outcome of its second call, which is made
  only when the first completed with a non-zero exit code or with no output once stripped.
  When every exception raised by the calls a tool makes is an instance of \<open>Exception\<close>,
  the tool returns a string, and a failure of the launch in \<open>execute_powershell_command\<close>
  is returned as "Error: " followed by \<open>str(e)\<close>. When a call that a tool makes raises
  \<open>KeyboardInterrupt\<close>, that exception reaches the caller. Nothing is assumed of a second
  call that is not made.
\<close>

theorem tools_recover_exceptions:
  assumes "env (powershell command 30) (os_state s) = (r, w)"
      and "env (powershell (help_command query) 15) (os_state s) = (r1, w1)"
      and "env (powershell (search_command query) 15) w1 = (r2, w2)"
  shows
    "((\<forall>e. r = Inl e \<longrightarrow> isinstance_Exception e) \<longrightarrow>
        (\<exists>text. fst (execute_powershell_command env command s) = Inr text))
     \<and> (\<forall>msg. r = Inl (OtherException msg) \<longrightarrow>
          fst (execute_powershell_command env command s) = Inr (lit ''Error: '' @ msg))
     \<and> (r = Inl KeyboardInterrupt \<longrightarrow>
          fst (execute_powershell_command env command s) = Inl KeyboardInterrupt)
     \<and> ((\<forall>e. r1 = Inl e \<or>
              ((\<exists>cp. r1 = Inr cp \<and> (returncode cp \<noteq> 0 \<or> strip (stdout cp) = [])) \<and>
               r2 = Inl e) \<longrightarrow> isinstance_Exception e) \<longrightarrow>
        (\<exists>text. fst (search_powershell_command env query s) = Inr text))
     \<and> (r1 = Inl KeyboardInterrupt \<or>
          ((\<exists>cp. r1 = Inr cp \<and> (returncode cp \<noteq> 0 \<or> strip (stdout cp) = [])) \<and>
           r2 = Inl KeyboardInterrupt) \<longrightarrow>
        fst (search_powershell_command env query s) = Inl KeyboardInterrupt)"
proof (intro conjI impI allI)
  assume "\<forall>e. r = Inl e \<longrightarrow> isinstance_Exception e"
  with assms(1) show "\<exists>text. fst (execute_powershell_command env command s) = Inr text"
    by (auto simp add: execute_fst split: sum.splits py_exception.splits)
next
  fix msg
  assume "r = Inl (OtherException msg)"
  with assms(1) show "fst (execute_powershell_command env command s) = Inr (lit ''Error: '' @ msg)"
    by (simp add: execute_fst)
next
  assume "r = Inl KeyboardInterrupt"
  with assms(1) show "fst (execute_powershell_command env command s) = Inl KeyboardInterrupt"
    by (simp add: execute_fst)
next
  assume h: "\<forall>e. r1 = Inl e \<or>
              ((\<exists>cp. r1 = Inr cp \<and> (returncode cp \<noteq> 0 \<or> strip (stdout cp) = [])) \<and>
               r2 = Inl e) \<longrightarrow> isinstance_Exception e"
  note fst_eq = search_fst [OF assms(2) assms(3)]
  show "\<exists>text. fst (search_powershell_command env query s) = Inr text"
  proof (cases r1)
    case (Inl e)
    with h have "isinstance_Exception e" by simp
    with Inl fst_eq show ?thesis by (simp add: search_except_text)
  next
    case r1: (Inr cp)
    show ?thesis
    proof (cases "returncode cp = 0 \<and> strip (stdout cp) \<noteq> []")
      case True
      with r1 fst_eq show ?thesis by simp
    next
      case False
      show ?thesis
      proof (cases r2)
        case (Inl e)
        with h r1 False have "isinstance_Exception e" by auto
        with Inl r1 False fst_eq show ?thesis by (auto simp add: search_except_text)
      next
        case (Inr cp2)
        with r1 False fst_eq show ?thesis by auto
      qed
    qed
  qed
next
  assume "r1 = Inl KeyboardInterrupt \<or>
          ((\<exists>cp. r1 = Inr cp \<and> (returncode cp \<noteq> 0 \<or> strip (stdout cp) = [])) \<and>
           r2 = Inl KeyboardInterrupt)"
  then show "fst (search_powershell_command env query s) = Inl KeyboardInterrupt"
    using search_fst [OF assms(2) assms(3)] by auto
qed

text \<open>
  Three machines: one without the interpreter, where both tools return text; one where
  the first call of the search prints help and a second call would have been interrupted,
  where the help is returned; and one where the first call prints nothing and the second
  is interrupted, where the interrupt reaches the caller.
\<close>

theorem tools_recover_exceptions_witness:
  "scripted_os (powershell (lit ''Get-Date'') 30) []
     = (Inl (OtherException (lit ''[WinError 2] The system cannot find the file specified'')), [])
   \<and> isinstance_Exception
        (OtherException (lit ''[WinError 2] The system cannot find the file specified''))
   \<and> fst (execute_powershell_command scripted_os (lit ''Get-Date'') \<lparr>spawned = [], os_state = []\<rparr>)
     = Inr (lit ''Error: [WinError 2] The system cannot find the file specified'')
   \<and> fst (search_powershell_command scripted_os (lit ''Get-Date'') \<lparr>spawned = [], os_state = []\<rparr>)
     = Inr (lit ''Error searching for command: [WinError 2] The system cannot find the file specified'')
   \<and> scripted_os (powershell (help_command (lit ''Get-Date'')) 15)
       [Inr (CompletedProcess 0 (lit ''NAME'') []), Inl KeyboardInterrupt]
     = (Inr (CompletedProcess 0 (lit ''NAME'') []), [Inl KeyboardInterrupt])
   \<and> scripted_os (powershell (search_command (lit ''Get-Date'')) 15) [Inl KeyboardInterrupt]
     = (Inl KeyboardInterrupt, [])
   \<and> fst (search_powershell_command scripted_os (lit ''Get-Date'')
        \<lparr>spawned = [],
         os_state = [Inr (CompletedProcess 0 (lit ''NAME'') []), Inl KeyboardInterrupt]\<rparr>)
     = Inr (lit ''NAME'')
   \<and> scripted_os (powershell (help_command (lit ''Get-Date'')) 15)
       [Inr (CompletedProcess 1 [] []), Inl KeyboardInterrupt]
     = (Inr (CompletedProcess 1 [] []), [Inl KeyboardInterrupt])
   \<and> fst (search_powershell_command scripted_os (lit ''Get-Date'')
        \<lparr>spawned = [], os_state = [Inr (CompletedProcess 1 [] []), Inl KeyboardInterrupt]\<rparr>)
     = Inl KeyboardInterrupt"
proof -
  let ?missing = "Inl (OtherException (lit ''[WinError 2] The system cannot find the file specified''))
                    :: py_exception + completed_process"
  let ?found = "Inr (CompletedProcess 0 (lit ''NAME'') []) :: py_exception + completed_process"
  let ?none = "Inr (CompletedProcess 1 [] []) :: py_exception + completed_process"
  let ?int = "Inl KeyboardInterrupt :: py_exception + completed_process"
  have a: "fst (execute_powershell_command scripted_os (lit ''Get-Date'') \<lparr>spawned = [], os_state = []\<rparr>)
             = Inr (lit ''Error: [WinError 2] The system cannot find the file specified'')
           \<and> fst (search_powershell_command scripted_os (lit ''Get-Date'') \<lparr>spawned = [], os_state = []\<rparr>)
             = Inr (lit ''Error searching for command: [WinError 2] The system cannot find the file specified'')"
    using tools_recover_exceptions [of scripted_os "lit ''Get-Date''"
        "\<lparr>spawned = [], os_state = []\<rparr>" ?missing "[]" "lit ''Get-Date''" ?missing "[]" ?missing "[]"]
    by (simp add: search_powershell_command_def subprocess_run_def lit_def)
  have b: "fst (search_powershell_command scripted_os (lit ''Get-Date'')
             \<lparr>spawned = [], os_state = [?found, ?int]\<rparr>) = Inr (lit ''NAME'')"
    using tools_recover_exceptions [of scripted_os "lit ''Get-Date''"
        "\<lparr>spawned = [], os_state = [?found, ?int]\<rparr>" ?found "[?int]" "lit ''Get-Date''"
        ?found "[?int]" ?int "[]"]
      search_fst [of scripted_os "lit ''Get-Date''" "\<lparr>spawned = [], os_state = [?found, ?int]\<rparr>"
        ?found "[?int]" ?int "[]"]
    by (simp add: strip_def isspace_def lit_def)
  have c: "fst (search_powershell_command scripted_os (lit ''Get-Date'')
             \<lparr>spawned = [], os_state = [?none, ?int]\<rparr>) = Inl KeyboardInterrupt"
    using tools_recover_exceptions [of scripted_os "lit ''Get-Date''"
        "\<lparr>spawned = [], os_state = [?none, ?int]\<rparr>" ?none "[?int]" "lit ''Get-Date''"
        ?none "[?int]" ?int "[]"]
    by simp
  show ?thesis using a b c by simp
qed

section \<open>The claims about \<open>search_powershell_command\<close>\<close>



text \<open>
  Claim C6. When both calls complete, each with a non-zero exit code or with no output
  once stripped, the tool returns the not-found message with the query between
  apostrophes (code point 39).
\<close>

theorem search_not_found:
  assumes "env (powershell (help_command query) 15) (os_state s) = (Inr cp1, w1)"
      and "returncode cp1 \<noteq> 0 \<or> strip (stdout cp1) = []"
      and "env (powershell (search_command query) 15) w1 = (Inr cp2, w2)"
      and "returncode cp2 \<noteq> 0 \<or> strip (stdout cp2) = []"
  shows "fst (search_powershell_command env query s) =
           Inr (lit ''No help found for '' @ [39] @ query @ [39] @
                lit ''. Try using more specific command names like Get-Process, Get-Service, etc.'')"
  using assms search_second [of env query s cp1 w1 "Inr cp2" w2] by auto

text \<open>A query for which neither call prints anything.\<close>

theorem search_not_found_witness:
  "scripted_os (powershell (help_command (lit ''zzz-nonexistent-cmd'')) 15)
       [Inr (CompletedProcess 0 [] []), Inr (CompletedProcess 1 [] [])]
     = (Inr (CompletedProcess 0 [] []), [Inr (CompletedProcess 1 [] [])])
   \<and> scripted_os (powershell (search_command (lit ''zzz-nonexistent-cmd'')) 15)
       [Inr (CompletedProcess 1 [] [])]
     = (Inr (CompletedProcess 1 [] []), [])
   \<and> fst (search_powershell_command scripted_os (lit ''zzz-nonexistent-cmd'')
        \<lparr>spawned = [],
         os_state = [Inr (CompletedProcess 0 [] []), Inr (CompletedProcess 1 [] [])]\<rparr>)
     = Inr (lit ''No help found for '' @ [39] @ lit ''zzz-nonexistent-cmd'' @ [39] @
            lit ''. Try using more specific command names like Get-Process, Get-Service, etc.'')"
  using search_not_found [of scripted_os "lit ''zzz-nonexistent-cmd''"
      "\<lparr>spawned = [],
        os_state = [Inr (CompletedProcess 0 [] []), Inr (CompletedProcess 1 [] [])]\<rparr>"
      "CompletedProcess 0 [] []" "[Inr (CompletedProcess 1 [] [])]"
      "CompletedProcess 1 [] []" "[]"]
  by (simp add: strip_def)

text \<open>
  Claim C7. When the first call ends with \<open>TimeoutExpired\<close>, or the first call sends the
  tool to the second one and that ends with \<open>TimeoutExpired\<close>, the tool returns
  "Error: Search timed out.".
\<close>

theorem search_timeout:
  assumes "env (powershell (help_command query) 15) (os_state s) = (r1, w1)"
      and "r1 = Inl TimeoutExpired \<or>
           ((\<exists>cp. r1 = Inr cp \<and> (returncode cp \<noteq> 0 \<or> strip (stdout cp) = [])) \<and>
            fst (env (powershell (search_command query) 15) w1) = Inl TimeoutExpired)"
  shows "fst (search_powershell_command env query s) = Inr (lit ''Error: Search timed out.'')"
proof (cases r1)
  case (Inl e)
  with assms show ?thesis by (auto simp add: search_first_raises)
next
  case (Inr cp)
  with assms(2) have f: "returncode cp \<noteq> 0 \<or> strip (stdout cp) = []"
    and t: "fst (env (powershell (search_command query) 15) w1) = Inl TimeoutExpired"
    by auto
  from assms(1) Inr
  have e1: "env (powershell (help_command query) 15) (os_state s) = (Inr cp, w1)" by simp
  obtain w2 where e2: "env (powershell (search_command query) 15) w1 = (Inl TimeoutExpired, w2)"
    using t by (cases "env (powershell (search_command query) 15) w1") simp
  show ?thesis
    using e1 f e2 search_second [of env query s cp w1 "Inl TimeoutExpired" w2] by simp
qed

text \<open>A timeout in the first call, and a timeout in the second.\<close>

theorem search_timeout_witness:
  "scripted_os (powershell (help_command (lit ''Get-Process'')) 15) [Inl TimeoutExpired]
     = (Inl TimeoutExpired, [])
   \<and> fst (search_powershell_command scripted_os (lit ''Get-Process'')
        \<lparr>spawned = [], os_state = [Inl TimeoutExpired]\<rparr>) = Inr (lit ''Error: Search timed out.'')
   \<and> scripted_os (powershell (help_command (lit ''proc'')) 15)
       [Inr (CompletedProcess 1 [] []), Inl TimeoutExpired]
     = (Inr (CompletedProcess 1 [] []), [Inl TimeoutExpired])
   \<and> fst (scripted_os (powershell (search_command (lit ''proc'')) 15) [Inl TimeoutExpired])
     = Inl TimeoutExpired
   \<and> fst (search_powershell_command scripted_os (lit ''proc'')
        \<lparr>spawned = [], os_state = [Inr (CompletedProcess 1 [] []), Inl TimeoutExpired]\<rparr>)
     = Inr (lit ''Error: Search timed out.'')"
  using search_timeout [of scripted_os "lit ''Get-Process''"
      "\<lparr>spawned = [], os_state = [Inl TimeoutExpired]\<rparr>" "Inl TimeoutExpired" "[]"]
    search_timeout [of scripted_os "lit ''proc''"
      "\<lparr>spawned = [], os_state = [Inr (CompletedProcess 1 [] []), Inl TimeoutExpired]\<rparr>"
      "Inr (CompletedProcess 1 [] [])" "[Inl TimeoutExpired]"]
  by simp

section \<open>The claims about both tools\<close>

text \<open>
  Claim C8. Every call of \<open>subprocess.run\<close> made by the tools passes a list of three
  arguments, the interpreter \<open>powershell\<close>, the flag \<open>-Command\<close> and the command text as
  one element, with \<open>shell=False\<close>: \<open>execute_powershell_command\<close> makes exactly one such
  call, \<open>search_powershell_command\<close> one or two.
\<close>

theorem explicit_argument_list:
  "spawned (snd (execute_powershell_command env command s)) =
     spawned s @
     [\<lparr>args = [lit ''powershell'', lit ''-Command'', command],
       capture_output = True, text_mode = True, timeout = 30, shell = False\<rparr>]
   \<and> (spawned (snd (search_powershell_command env query s)) =
        spawned s @
        [\<lparr>args = [lit ''powershell'', lit ''-Command'',
                  lit ''Get-Help '' @ query @ lit '' -ErrorAction SilentlyContinue''],
          capture_output = True, text_mode = True, timeout = 15, shell = False\<rparr>]
      \<or> spawned (snd (search_powershell_command env query s)) =
        spawned s @
        [\<lparr>args = [lit ''powershell'', lit ''-Command'',
                  lit ''Get-Help '' @ query @ lit '' -ErrorAction SilentlyContinue''],
          capture_output = True, text_mode = True, timeout = 15, shell = False\<rparr>,
         \<lparr>args = [lit ''powershell'', lit ''-Command'',
                  lit ''Get-Command *'' @ query @
                  lit ''* -ErrorAction SilentlyContinue | Select-Object -First 5 Name, Synopsis''],
          capture_output = True, text_mode = True, timeout = 15, shell = False\<rparr>])"
proof -
  obtain r1 w1 where e1: "env (powershell (help_command query) 15) (os_state s) = (r1, w1)"
    by (cases "env (powershell (help_command query) 15) (os_state s)")
  obtain r2 w2 where e2: "env (powershell (search_command query) 15) w1 = (r2, w2)"
    by (cases "env (powershell (search_command query) 15) w1")
  have "spawned (snd (search_powershell_command env query s)) =
          spawned s @ [powershell (help_command query) 15]
        \<or> spawned (snd (search_powershell_command env query s)) =
          spawned s @ [powershell (help_command query) 15, powershell (search_command query) 15]"
  proof (cases r1)
    case (Inl e)
    with e1 show ?thesis by (simp add: search_first_raises)
  next
    case (Inr cp)
    with e1 have e1': "env (powershell (help_command query) 15) (os_state s) = (Inr cp, w1)"
      by simp
    show ?thesis
    proof (cases "returncode cp = 0 \<and> strip (stdout cp) \<noteq> []")
      case True
      then show ?thesis using e1' search_first_returns [of env query s cp w1] by simp
    next
      case False
      then have f: "returncode cp \<noteq> 0 \<or> strip (stdout cp) = []" by blast
      show ?thesis using e1' f e2 search_second [of env query s cp w1 r2 w2] by simp
    qed
  qed
  then show ?thesis
    by (simp add: execute_spawned help_command_def search_command_def)
qed

text \<open>On a machine without the interpreter each tool makes one call.\<close>

theorem explicit_argument_list_witness:
  "spawned (snd (execute_powershell_command scripted_os (lit ''Get-Date'')
        \<lparr>spawned = [], os_state = []\<rparr>))
     = [\<lparr>args = [lit ''powershell'', lit ''-Command'', lit ''Get-Date''],
         capture_output = True, text_mode = True, timeout = 30, shell = False\<rparr>]
   \<and> spawned (snd (search_powershell_command scripted_os (lit ''Get-Date'')
        \<lparr>spawned = [], os_state = []\<rparr>))
     = [\<lparr>args = [lit ''powershell'', lit ''-Command'',
                 lit ''Get-Help Get-Date -ErrorAction SilentlyContinue''],
         capture_output = True, text_mode = True, timeout = 15, shell = False\<rparr>]"
  using explicit_argument_list [of scripted_os "lit ''Get-Date''"
      "\<lparr>spawned = [], os_state = []\<rparr>" "lit ''Get-Date''"]
  by (simp add: search_powershell_command_def subprocess_run_def help_command_def lit_def)

text \<open>
  Claim C9. Two calls of \<open>execute_powershell_command\<close> on the same command, on any two
  machines in any two states, return the same string when their subprocesses complete
  with the same exit code, standard output and standard error.
\<close>

theorem execute_deterministic:
  assumes "fst (env1 (powershell command 30) (os_state s1)) = Inr (CompletedProcess rc out err)"
      and "fst (env2 (powershell command 30) (os_state s2)) = Inr (CompletedProcess rc out err)"
  shows "fst (execute_powershell_command env1 command s1) =
         fst (execute_powershell_command env2 command s2)"
  using assms by (simp add: execute_fst)

text \<open>The same command run twice, the second time in a state with history.\<close>

theorem execute_deterministic_witness:
  "fst (scripted_os (powershell (lit ''echo hello'') 30)
          [Inr (CompletedProcess 0 (lit ''hello'' @ [10]) [])])
     = Inr (CompletedProcess 0 (lit ''hello'' @ [10]) [])
   \<and> fst (scripted_os (powershell (lit ''echo hello'') 30)
          [Inr (CompletedProcess 0 (lit ''hello'' @ [10]) []), Inl TimeoutExpired])
     = Inr (CompletedProcess 0 (lit ''hello'' @ [10]) [])
   \<and> fst (execute_powershell_command scripted_os (lit ''echo hello'')
        \<lparr>spawned = [], os_state = [Inr (CompletedProcess 0 (lit ''hello'' @ [10]) [])]\<rparr>)
     = fst (execute_powershell_command scripted_os (lit ''echo hello'')
        \<lparr>spawned = [powershell (lit ''echo hello'') 30],
         os_state = [Inr (CompletedProcess 0 (lit ''hello'' @ [10]) []), Inl TimeoutExpired]\<rparr>)"
  using execute_deterministic [of scripted_os "lit ''echo hello''"
      "\<lparr>spawned = [], os_state = [Inr (CompletedProcess 0 (lit ''hello'' @ [10]) [])]\<rparr>"
      0 "lit ''hello'' @ [10]" "[]" scripted_os
      "\<lparr>spawned = [powershell (lit ''echo hello'') 30],
        os_state = [Inr (CompletedProcess 0 (lit ''hello'' @ [10]) []), Inl TimeoutExpired]\<rparr>"]
  by simp

text \<open>
  Claim C10. For every outcome of the subprocess that is a completion, a timeout or a
  failure of the launch, \<open>execute_powershell_command\<close> returns a string that is not empty.
\<close>

theorem execute_result_nonempty:
  assumes "\<forall>e. fst (env (powershell command 30) (os_state s)) = Inl e \<longrightarrow> isinstance_Exception e"
  shows "\<exists>text. fst (execute_powershell_command env command s) = Inr text \<and> text \<noteq> []"
  using assms
  by (auto simp add: execute_fst lit_def split: sum.splits py_exception.splits)

text \<open>
  A non-zero exit whose standard error holds only a line end, where the prefix alone is
  returned, and a failed launch.
\<close>

theorem execute_result_nonempty_witness:
  "fst (scripted_os (powershell (lit ''Get-Item nope'') 30) [Inr (CompletedProcess 1 [] [13, 10])])
     = Inr (CompletedProcess 1 [] [13, 10])
   \<and> fst (execute_powershell_command scripted_os (lit ''Get-Item nope'')
        \<lparr>spawned = [], os_state = [Inr (CompletedProcess 1 [] [13, 10])]\<rparr>)
     = Inr (lit ''Error executing command: '')
   \<and> lit ''Error executing command: '' \<noteq> []
   \<and> fst (scripted_os (powershell (lit ''Get-Date'') 30) [])
     = Inl (OtherException (lit ''[WinError 2] The system cannot find the file specified''))
   \<and> isinstance_Exception
        (OtherException (lit ''[WinError 2] The system cannot find the file specified''))
   \<and> fst (execute_powershell_command scripted_os (lit ''Get-Date'') \<lparr>spawned = [], os_state = []\<rparr>)
     \<noteq> Inr []"
  using execute_result_nonempty [of scripted_os "lit ''Get-Item nope''"
      "\<lparr>spawned = [], os_state = [Inr (CompletedProcess 1 [] [13, 10])]\<rparr>"]
    execute_result_nonempty [of scripted_os "lit ''Get-Date''"
      "\<lparr>spawned = [], os_state = []\<rparr>"]
  by (simp add: execute_fst strip_def isspace_def lit_def)

end
